theory Spec2Isabelle
  imports Main "HOL-Library.Sublist"
begin

section \<open>Data model\<close>

text \<open>
  The popup script (class \<open>JobApplier\<close>) and the service worker (\<open>background.js\<close>) of the
  extension, embedded as state transformers on one record \<open>world\<close>.

  A job is a JavaScript object; the queue and \<open>currentJob\<close> hold references to such objects,
  and \<open>this.currentJob.status = ...\<close> is visible through the queue exactly when the two
  references are the same object. So jobs live in an explicit store \<open>heap\<close>, indexed by
  addresses; \<open>fresh\<close> is the next unused address. Objects that arrive in a message or are read
  from \<open>chrome.storage\<close> are copies and get new addresses.

  Every handler is modelled as running to completion. The outcome of each external call
  it awaits (tab navigation, the analysis request, script injection, the clock) is a
  parameter of the handler: \<open>None\<close> for a call that resolves, \<open>Some msg\<close> for one that throws
  an error with message \<open>msg\<close>. DOM updates are assumed not to throw, and a message
  from the popup to the service worker is assumed to arrive. The logger's \<open>debug_logs\<close>
  key and the service worker's \<open>temp_message_*\<close> keys are left out of the storage model.
  A timer is an effect when it is set and an input of the session when it fires.
\<close>

datatype status = pending | reviewing | applying | applied | skipped

record job =
  jobTitle :: string
  company :: string
  url :: string
  post_id :: string
  status :: status
  starred :: bool
  dateFound :: string
  description :: "string option"
  matchScore :: "int option"
  coverLetter :: "string option"
  error :: "string option"
  appliedDate :: "string option"

text \<open>The service worker's \<open>applicationState\<close> object (the timer handle is left out).\<close>

record appstate =
  bg_isProcessing :: bool
  bg_currentJob :: "job option"
  bg_jobQueue :: "job list"

datatype callback = ProcessJobQueue | ContinueProcessing | NotifyPopup

text \<open>What a handler asks of the outside world: scripts injected into the page, the review
  panel, and timers (\<open>setTimeout\<close> with its callback and delay in milliseconds).\<close>

datatype effect =
    InjectJobScraping string
  | ScrapeDescription string
  | ShowReview string
  | SubmitScript string
  | SetTimeout callback nat

record world =
  heap :: "nat \<Rightarrow> job"
  fresh :: nat
  jobQueue :: "nat list"
  currentJob :: "nat option"
  isProcessing :: bool
  isPaused :: bool
  reviewActive :: bool
  listeners :: nat
  applicationState :: appstate
  stored_jobQueue :: "job list option"
  stored_applicationState :: "appstate option"
  stored_keywords :: "string option"
  stored_criteria :: "string option"
  stored_cv :: "string option"
  stored_llmToken :: "string option"
  effects :: "effect list"

text \<open>Result of the analysis request in \<open>analyzeJobWithAI\<close>: the parsed JSON answer, whose
  two fields may be missing, or an exception.\<close>

datatype ai_result = AI_ok "int option" "string option" | AI_fail string

text \<open>Messages on \<open>chrome.runtime.onMessage\<close>, with the fields their senders set.\<close>

datatype message =
    JOBS_SCRAPED "job list"
  | JOB_DESCRIPTION_SCRAPED string "string option" "string option"
  | APPLICATION_SUBMITTED string bool "string option"
  | CONTINUE_PROCESSING "job option"

section \<open>Helpers\<close>

text \<open>JavaScript truthiness of an optional string: \<open>undefined\<close> and \<open>''\<close> are falsy.\<close>

definition truthy :: "string option \<Rightarrow> bool" where
  "truthy v = (case v of None \<Rightarrow> False | Some s \<Rightarrow> s \<noteq> [])"

definition emit :: "effect \<Rightarrow> world \<Rightarrow> world" where
  "emit e w = w\<lparr>effects := effects w @ [e]\<rparr>"

text \<open>Assignment to fields of the object at address \<open>r\<close>.\<close>

definition mutate :: "nat \<Rightarrow> (job \<Rightarrow> job) \<Rightarrow> world \<Rightarrow> world" where
  "mutate r f w = w\<lparr>heap := (heap w)(r := f (heap w r))\<rparr>"

text \<open>Deserialisation: each received job becomes a new object.\<close>

fun new_objects :: "job list \<Rightarrow> world \<Rightarrow> nat list \<times> world" where
  "new_objects [] w = ([], w)"
| "new_objects (j # js) w =
     (case new_objects js (w\<lparr>heap := (heap w)(fresh w := j), fresh := Suc (fresh w)\<rparr>) of
        (rs, w') \<Rightarrow> (fresh w # rs, w'))"

definition new_object :: "job option \<Rightarrow> world \<Rightarrow> nat option \<times> world" where
  "new_object jo w =
     (case jo of
        None \<Rightarrow> (None, w)
      | Some j \<Rightarrow> (Some (fresh w), w\<lparr>heap := (heap w)(fresh w := j), fresh := Suc (fresh w)\<rparr>))"

text \<open>\<open>this.jobQueue.find(job => job.status === 'pending')\<close> and
  \<open>this.jobQueue.find(j => j.post_id === jobId)\<close>.\<close>

definition find_pending :: "world \<Rightarrow> nat option" where
  "find_pending w = find (\<lambda>r. status (heap w r) = pending) (jobQueue w)"

definition find_by_id :: "string \<Rightarrow> world \<Rightarrow> nat option" where
  "find_by_id jobId w = find (\<lambda>r. post_id (heap w r) = jobId) (jobQueue w)"

section \<open>The service worker (background.js)\<close>

definition saveApplicationState :: "world \<Rightarrow> world" where
  "saveApplicationState w = w\<lparr>stored_applicationState := Some (applicationState w)\<rparr>"

text \<open>\<open>continueProcessing\<close> of background.js: arms the five-second timer whose callback sends
  \<open>CONTINUE_PROCESSING\<close>.\<close>

definition bg_continueProcessing :: "world \<Rightarrow> world" where
  "bg_continueProcessing w =
     (if \<not> bg_isProcessing (applicationState w) \<or> bg_currentJob (applicationState w) = None
      then w
      else emit (SetTimeout NotifyPopup 5000) w)"

text \<open>The \<open>UPDATE_APPLICATION_STATE\<close> branch of the service worker's listener. The only sender
  sets all three fields, so the spread merge overwrites all three.\<close>

definition bg_onUpdate :: "appstate \<Rightarrow> world \<Rightarrow> world" where
  "bg_onUpdate st w =
     (let w1 = saveApplicationState (w\<lparr>applicationState := st\<rparr>)
      in if bg_isProcessing (applicationState w1) then bg_continueProcessing w1 else w1)"

section \<open>The popup (class JobApplier)\<close>

definition saveJobQueue :: "world \<Rightarrow> world" where
  "saveJobQueue w = w\<lparr>stored_jobQueue := Some (map (heap w) (jobQueue w))\<rparr>"

definition updateBackgroundState :: "world \<Rightarrow> world" where
  "updateBackgroundState w =
     bg_onUpdate
       \<lparr>bg_isProcessing = isProcessing w,
        bg_currentJob = map_option (heap w) (currentJob w),
        bg_jobQueue = map (heap w) (jobQueue w)\<rparr> w"

definition saveSettings :: "string \<Rightarrow> string \<Rightarrow> string \<Rightarrow> string \<Rightarrow> world \<Rightarrow> world" where
  "saveSettings k c v t w =
     w\<lparr>stored_keywords := Some k, stored_criteria := Some c,
       stored_cv := Some v, stored_llmToken := Some t\<rparr>"

definition clearAllData :: "bool \<Rightarrow> world \<Rightarrow> world" where
  "clearAllData confirmed w =
     (if confirmed
      then w\<lparr>stored_jobQueue := None, stored_applicationState := None,
             stored_keywords := None, stored_criteria := None,
             stored_cv := None, stored_llmToken := None,
             jobQueue := []\<rparr>
      else w)"

text \<open>\<open>scrapeJobDescription\<close>: the awaited tab calls either throw or leave the injection
  scheduled.\<close>

definition processJobQueue :: "string option \<Rightarrow> world \<Rightarrow> world" where
  "processJobQueue scrape w =
     (if isPaused w then w
      else case find_pending w of
        None \<Rightarrow> w\<lparr>isProcessing := False\<rparr>
      | Some nextJob \<Rightarrow>
          (let w1 = w\<lparr>currentJob := Some nextJob\<rparr> in
           case scrape of
             None \<Rightarrow> emit (ScrapeDescription (post_id (heap w1 nextJob))) w1
           | Some msg \<Rightarrow>
               emit (SetTimeout ProcessJobQueue 1000)
                 (saveJobQueue
                   (mutate nextJob (\<lambda>j. j\<lparr>status := skipped, error := Some msg\<rparr>) w1))))"

definition continueProcessing :: "string option \<Rightarrow> world \<Rightarrow> world" where
  "continueProcessing scrape w =
     (if \<not> isProcessing w \<or> currentJob w = None then w
      else processJobQueue scrape w)"

definition restoreApplicationState :: "world \<Rightarrow> world" where
  "restoreApplicationState w =
     (case new_object (bg_currentJob (applicationState w)) w of
        (c, w1) \<Rightarrow>
          (let w2 = w1\<lparr>isProcessing := bg_isProcessing (applicationState w),
                       currentJob := c\<rparr>
           in if isProcessing w2 \<and> currentJob w2 \<noteq> None
              then emit (SetTimeout ContinueProcessing 1000) w2
              else w2))"

definition loadJobQueue :: "world \<Rightarrow> world" where
  "loadJobQueue w =
     (case new_objects (case stored_jobQueue w of None \<Rightarrow> [] | Some q \<Rightarrow> q) w of
        (refs, w1) \<Rightarrow> w1\<lparr>jobQueue := refs\<rparr>)"

text \<open>A new popup: the constructor's fields, a page without the review panel and without
  content-script listeners, then \<open>init\<close>.\<close>

definition init :: "world \<Rightarrow> world" where
  "init w =
     restoreApplicationState
       (loadJobQueue
         (w\<lparr>currentJob := None, isProcessing := False, isPaused := False,
            reviewActive := False, listeners := 0, jobQueue := []\<rparr>))"

definition processSpecificJob :: "nat \<Rightarrow> string option \<Rightarrow> world \<Rightarrow> world" where
  "processSpecificJob index scrape w =
     (if length (jobQueue w) \<le> index then w
      else let job = jobQueue w ! index in
        if status (heap w job) \<noteq> pending then w
        else processJobQueue scrape
               (updateBackgroundState (w\<lparr>currentJob := Some job, isProcessing := True\<rparr>)))"

definition toggleJobStar :: "nat \<Rightarrow> world \<Rightarrow> world" where
  "toggleJobStar index w =
     (if length (jobQueue w) \<le> index then w
      else saveJobQueue (mutate (jobQueue w ! index) (\<lambda>j. j\<lparr>starred := \<not> starred j\<rparr>) w))"

definition startApplication :: "bool \<Rightarrow> string option \<Rightarrow> world \<Rightarrow> world" where
  "startApplication onLinkedIn inject w =
     (if \<not> truthy (stored_keywords w) \<or> \<not> truthy (stored_criteria w)
         \<or> \<not> truthy (stored_cv w) \<or> \<not> truthy (stored_llmToken w) then w
      else if \<not> onLinkedIn then w
      else let w1 = updateBackgroundState (w\<lparr>isProcessing := True, isPaused := False\<rparr>) in
        case inject of
          None \<Rightarrow>
            (emit (InjectJobScraping (case stored_keywords w of None \<Rightarrow> [] | Some k \<Rightarrow> k)) w1)
              \<lparr>listeners := Suc (listeners w1)\<rparr>
        | Some msg \<Rightarrow> updateBackgroundState (w1\<lparr>isProcessing := False\<rparr>))"

definition pauseApplication :: "world \<Rightarrow> world" where
  "pauseApplication w = updateBackgroundState (w\<lparr>isPaused := True, isProcessing := False\<rparr>)"

definition handleScrapedJobs :: "job list \<Rightarrow> string option \<Rightarrow> world \<Rightarrow> world" where
  "handleScrapedJobs newJobs scrape w =
     (if newJobs = [] then w\<lparr>isProcessing := False\<rparr>
      else
        let existingIds = map (\<lambda>r. post_id (heap w r)) (jobQueue w);
            uniqueJobs = filter (\<lambda>j. post_id j \<notin> set existingIds) newJobs
        in if uniqueJobs = [] then w\<lparr>isProcessing := False\<rparr>
           else case new_objects uniqueJobs w of
             (refs, w1) \<Rightarrow>
               processJobQueue scrape (saveJobQueue (w1\<lparr>jobQueue := jobQueue w1 @ refs\<rparr>)))"

definition showReviewSection :: "nat \<Rightarrow> world \<Rightarrow> world" where
  "showReviewSection job w =
     (emit (ShowReview (post_id (heap w job))) w)\<lparr>reviewActive := True, isProcessing := False\<rparr>"

definition hideReviewSection :: "world \<Rightarrow> world" where
  "hideReviewSection w = w\<lparr>reviewActive := False\<rparr>"

definition analyzeJobWithAI :: "nat \<Rightarrow> ai_result \<Rightarrow> world \<Rightarrow> world" where
  "analyzeJobWithAI job ai w =
     (case ai of
        AI_ok score letter \<Rightarrow>
          showReviewSection job
            (saveJobQueue
              (mutate job
                 (\<lambda>j. j\<lparr>matchScore := score, coverLetter := letter, status := reviewing\<rparr>) w))
      | AI_fail msg \<Rightarrow>
          emit (SetTimeout ProcessJobQueue 1000)
            (saveJobQueue
              (mutate job
                 (\<lambda>j. j\<lparr>status := skipped, error := Some (''AI analysis failed: '' @ msg)\<rparr>) w)))"

definition handleJobDescription ::
  "string \<Rightarrow> string option \<Rightarrow> string option \<Rightarrow> ai_result \<Rightarrow> world \<Rightarrow> world" where
  "handleJobDescription jobId descr err ai w =
     (if truthy err then
        (case find_by_id jobId w of
           Some job \<Rightarrow>
             emit (SetTimeout ProcessJobQueue 1000)
               (saveJobQueue (mutate job (\<lambda>j. j\<lparr>status := skipped, error := err\<rparr>) w))
         | None \<Rightarrow> w)
      else
        (case find_by_id jobId w of
           Some job \<Rightarrow>
             analyzeJobWithAI job ai
               (saveJobQueue (mutate job (\<lambda>j. j\<lparr>description := descr\<rparr>) w))
         | None \<Rightarrow> w))"

text \<open>\<open>submitApplication\<close> either throws before the script is injected or injects it.\<close>

definition confirmApplication :: "string option \<Rightarrow> world \<Rightarrow> world" where
  "confirmApplication submit w =
     (case currentJob w of
        None \<Rightarrow> w
      | Some c \<Rightarrow>
          (let w1 = saveJobQueue (mutate c (\<lambda>j. j\<lparr>status := applying\<rparr>) (hideReviewSection w));
               w2 = (case submit of
                       None \<Rightarrow> emit (SubmitScript (post_id (heap w1 c))) w1
                     | Some msg \<Rightarrow>
                         saveJobQueue
                           (mutate c (\<lambda>j. j\<lparr>status := skipped, error := Some msg\<rparr>) w1))
           in emit (SetTimeout ProcessJobQueue 2000) (w2\<lparr>isProcessing := True\<rparr>)))"

definition declineApplication :: "world \<Rightarrow> world" where
  "declineApplication w =
     (case currentJob w of
        None \<Rightarrow> w
      | Some c \<Rightarrow>
          emit (SetTimeout ProcessJobQueue 1000)
            ((saveJobQueue (mutate c (\<lambda>j. j\<lparr>status := skipped\<rparr>) (hideReviewSection w)))
               \<lparr>isProcessing := True\<rparr>))"

definition handleApplicationSubmitted ::
  "string \<Rightarrow> bool \<Rightarrow> string option \<Rightarrow> string \<Rightarrow> world \<Rightarrow> world" where
  "handleApplicationSubmitted jobId success err now w =
     (case find_by_id jobId w of
        None \<Rightarrow> w
      | Some job \<Rightarrow>
          saveJobQueue
            (if success
             then mutate job (\<lambda>j. j\<lparr>status := applied, appliedDate := Some now\<rparr>) w
             else mutate job
                    (\<lambda>j. j\<lparr>status := skipped,
                           error := (if truthy err then err
                                     else Some ''Application submission failed'')\<rparr>) w))"

text \<open>The listener that \<open>injectJobScrapingScript\<close> registers. It passes two arguments to
  \<open>handleJobDescription\<close> and to \<open>handleApplicationSubmitted\<close>, so their third parameter
  \<open>error\<close> is always \<open>undefined\<close>.\<close>

definition contentListener ::
  "message \<Rightarrow> string option \<Rightarrow> ai_result \<Rightarrow> string \<Rightarrow> world \<Rightarrow> world" where
  "contentListener m scrape ai now w =
     (case m of
        JOBS_SCRAPED jobs \<Rightarrow> handleScrapedJobs jobs scrape w
      | JOB_DESCRIPTION_SCRAPED jobId descr err \<Rightarrow> handleJobDescription jobId descr None ai w
      | APPLICATION_SUBMITTED jobId success err \<Rightarrow>
          handleApplicationSubmitted jobId success None now w
      | CONTINUE_PROCESSING jo \<Rightarrow> w)"

text \<open>The listener of \<open>setupBackgroundMessageListener\<close>.\<close>

definition backgroundMessageListener :: "message \<Rightarrow> string option \<Rightarrow> world \<Rightarrow> world" where
  "backgroundMessageListener m scrape w =
     (case m of
        CONTINUE_PROCESSING (Some j) \<Rightarrow>
          (case new_object (Some j) w of
             (c, w1) \<Rightarrow> continueProcessing scrape (w1\<lparr>currentJob := c, isProcessing := True\<rparr>))
      | _ \<Rightarrow> w)"

text \<open>A message reaches the background listener once and every registered content
  listener once (\<open>startApplication\<close> registers one more each time it runs); the listeners
  run one after the other, with the same outcomes of the external calls.\<close>

definition onMessage :: "message \<Rightarrow> string option \<Rightarrow> ai_result \<Rightarrow> string \<Rightarrow> world \<Rightarrow> world" where
  "onMessage m scrape ai now w =
     ((contentListener m scrape ai now) ^^ (listeners w)) (backgroundMessageListener m scrape w)"

section \<open>Runs of one popup session\<close>

text \<open>The inputs of a session: the user's actions, messages from the page, and timers
  firing. \<open>TimerNotifyPopup\<close> is the service worker's timer: it sends \<open>CONTINUE_PROCESSING\<close>
  with the \<open>currentJob\<close> it holds at that moment.\<close>

datatype event =
    SaveSettings string string string string
  | StartApplication bool "string option"
  | PauseApplication
  | ClearAllData bool
  | ProcessSpecificJob nat "string option"
  | ToggleJobStar nat
  | ConfirmApplication "string option"
  | DeclineApplication
  | Message message "string option" ai_result string
  | TimerProcessJobQueue "string option"
  | TimerContinueProcessing "string option"
  | TimerNotifyPopup "string option"

fun step :: "event \<Rightarrow> world \<Rightarrow> world" where
  "step (SaveSettings k c v t) w = saveSettings k c v t w"
| "step (StartApplication onLinkedIn inject) w = startApplication onLinkedIn inject w"
| "step PauseApplication w = pauseApplication w"
| "step (ClearAllData confirmed) w = clearAllData confirmed w"
| "step (ProcessSpecificJob index scrape) w = processSpecificJob index scrape w"
| "step (ToggleJobStar index) w = toggleJobStar index w"
| "step (ConfirmApplication submit) w = confirmApplication submit w"
| "step DeclineApplication w = declineApplication w"
| "step (Message m scrape ai now) w = onMessage m scrape ai now w"
| "step (TimerProcessJobQueue scrape) w = processJobQueue scrape w"
| "step (TimerContinueProcessing scrape) w = continueProcessing scrape w"
| "step (TimerNotifyPopup scrape) w =
     backgroundMessageListener
       (CONTINUE_PROCESSING (bg_currentJob (applicationState w))) scrape w"

fun run :: "event list \<Rightarrow> world \<Rightarrow> world" where
  "run [] w = w"
| "run (e # es) w = run es (step e w)"

text \<open>The extension right after installation: nothing stored, the service worker's initial
  \<open>applicationState\<close>, a popup just constructed. Addresses from \<open>fresh\<close> on are unused; the
  value the store holds there is never read.\<close>

definition blank_job :: job where
  "blank_job =
     \<lparr>jobTitle = [], company = [], url = [], post_id = [], status = pending, starred = False,
      dateFound = [], description = None, matchScore = None, coverLetter = None,
      error = None, appliedDate = None\<rparr>"

definition initial_appstate :: appstate where
  "initial_appstate = \<lparr>bg_isProcessing = False, bg_currentJob = None, bg_jobQueue = []\<rparr>"

definition installed :: world where
  "installed =
     \<lparr>heap = (\<lambda>_. blank_job), fresh = 0, jobQueue = [], currentJob = None,
      isProcessing = False, isPaused = False, reviewActive = False, listeners = 0,
      applicationState = initial_appstate,
      stored_jobQueue = None, stored_applicationState = None,
      stored_keywords = None, stored_criteria = None, stored_cv = None,
      stored_llmToken = None, effects = []\<rparr>"

text \<open>A scraped posting, as the injected script builds it.\<close>

definition scraped :: "string \<Rightarrow> string \<Rightarrow> job" where
  "scraped jobId title =
     blank_job\<lparr>jobTitle := title, company := ''Unknown Company'',
               url := ''https://www.linkedin.com/jobs/view/'' @ jobId, post_id := jobId,
               status := pending, starred := False\<rparr>"

text \<open>The effects that submit an application.\<close>

fun is_submit :: "effect \<Rightarrow> bool" where
  "is_submit (SubmitScript p) = True"
| "is_submit _ = False"

text \<open>Every address held by the queue has been allocated.\<close>

definition queue_allocated :: "world \<Rightarrow> bool" where
  "queue_allocated w = (\<forall>r\<in>set (jobQueue w). r < fresh w)"

section \<open>Example sessions\<close>

text \<open>Concrete sessions used to evaluate the handlers: settings saved and the pipeline
  started on LinkedIn; two postings \<open>A\<close> and \<open>B\<close> discovered; the description of \<open>A\<close>
  delivered and analysed.\<close>

definition jobA :: job where
  "jobA = scraped ''A'' ''Backend Engineer''"

definition jobB :: job where
  "jobB = scraped ''B'' ''Platform Engineer''"

definition ex_started :: world where
  "ex_started =
     run [SaveSettings ''backend engineer'' ''remote'' ''cv text'' ''token'',
          StartApplication True None] installed"

definition ex_queued :: world where
  "ex_queued = step (Message (JOBS_SCRAPED [jobA, jobB]) None (AI_fail []) []) ex_started"

definition ex_reviewing :: world where
  "ex_reviewing =
     step (Message (JOB_DESCRIPTION_SCRAPED ''A'' (Some ''We are hiring'') None)
             None (AI_ok (Some 82) (Some ''Dear team'')) []) ex_queued"

definition ex_first_skipped :: world where
  "ex_first_skipped =
     step (Message (JOB_DESCRIPTION_SCRAPED ''A'' (Some ''We are hiring'') None)
             None (AI_fail ''API request failed: 500'') []) ex_queued"

text \<open>The user presses Start again while \<open>A\<close> is under review: the service worker now holds
  \<open>isProcessing = true\<close> with \<open>A\<close> as current job.\<close>

definition ex_restarted :: world where
  "ex_restarted = step (StartApplication True None) ex_reviewing"




section \<open>Evaluation\<close>

text \<open>The defining equations, collected for evaluating the model on concrete sessions.\<close>

lemmas model_defs = installed_def initial_appstate_def blank_job_def scraped_def jobA_def jobB_def
  saveSettings_def startApplication_def
  truthy_def updateBackgroundState_def bg_onUpdate_def saveApplicationState_def bg_continueProcessing_def
  emit_def onMessage_def backgroundMessageListener_def contentListener_def handleScrapedJobs_def
  handleJobDescription_def analyzeJobWithAI_def showReviewSection_def hideReviewSection_def
  confirmApplication_def declineApplication_def handleApplicationSubmitted_def
  processSpecificJob_def continueProcessing_def restoreApplicationState_def loadJobQueue_def init_def
  new_object_def clearAllData_def pauseApplication_def toggleJobStar_def
  saveJobQueue_def processJobQueue_def find_pending_def find_by_id_def mutate_def Let_def

lemmas ex_defs = ex_started_def ex_queued_def ex_reviewing_def ex_first_skipped_def ex_restarted_def



section \<open>Auxiliary facts\<close>

text \<open>Allocation writes only at unused addresses and changes nothing but the store.\<close>

lemma new_objects_frame:
  "new_objects js w = (rs, w') \<Longrightarrow>
     rs = [fresh w ..< fresh w + length js] \<and> fresh w' = fresh w + length js \<and>
     map (heap w') rs = js \<and> (\<forall>r < fresh w. heap w' r = heap w r) \<and>
     w' = w\<lparr>heap := heap w', fresh := fresh w'\<rparr>"
proof (induction js arbitrary: w rs w')
  case Nil
  then show ?case by simp
next
  case (Cons j js)
  define w1 where "w1 = w\<lparr>heap := (heap w)(fresh w := j), fresh := Suc (fresh w)\<rparr>"
  obtain rs1 w1' where r: "new_objects js w1 = (rs1, w1')"
    by (cases "new_objects js w1")
  with Cons.prems have e: "rs = fresh w # rs1" "w' = w1'"
    by (simp_all add: w1_def)
  from Cons.IH [OF r]
  have i1: "rs1 = [fresh w1 ..< fresh w1 + length js]"
    and i2: "fresh w1' = fresh w1 + length js"
    and i3: "map (heap w1') rs1 = js"
    and i4: "\<forall>r < fresh w1. heap w1' r = heap w1 r"
    and i5: "w1' = w1\<lparr>heap := heap w1', fresh := fresh w1'\<rparr>"
    by blast+
  have f1: "fresh w1 = Suc (fresh w)"
    by (simp add: w1_def)
  have h: "rs = [fresh w ..< fresh w + length (j # js)]"
  proof -
    have "fresh w < fresh w + length (j # js)"
      by simp
    then have "[fresh w ..< fresh w + length (j # js)] =
        fresh w # [Suc (fresh w) ..< fresh w + length (j # js)]"
      by (rule upt_conv_Cons)
    moreover have "fresh w + length (j # js) = fresh w1 + length js"
      using f1 by simp
    ultimately have "[fresh w ..< fresh w + length (j # js)] =
        fresh w # [fresh w1 ..< fresh w1 + length js]"
      using f1 by (simp only:)
    then show ?thesis
      using i1 e by (simp only:)
  qed
  have b: "fresh w' = fresh w + length (j # js)"
    using i2 e f1 by simp
  have c: "heap w' (fresh w) = j"
    using i4 e f1 by (simp add: w1_def)
  have d: "map (heap w') rs = j # js"
    using i3 c e by simp
  have f: "\<forall>r < fresh w. heap w' r = heap w r"
    using i4 e f1 by (simp add: w1_def)
  have "w' = w1\<lparr>heap := heap w', fresh := fresh w'\<rparr>"
    using i5 e by simp
  then have g: "w' = w\<lparr>heap := heap w', fresh := fresh w'\<rparr>"
    by (simp add: w1_def)
  show ?case
    using h b d f g by blast
qed

lemma find_pending_Some:
  "find_pending w = Some r \<Longrightarrow> r \<in> set (jobQueue w) \<and> status (heap w r) = pending"
  unfolding find_pending_def find_Some_iff by auto

lemma find_pending_None:
  "find_pending w = None \<longleftrightarrow> (\<forall>r\<in>set (jobQueue w). status (heap w r) \<noteq> pending)"
  by (auto simp: find_pending_def find_None_iff)

lemma updateBackgroundState_popup:
  "heap (updateBackgroundState w) = heap w \<and> jobQueue (updateBackgroundState w) = jobQueue w \<and>
   currentJob (updateBackgroundState w) = currentJob w \<and>
   isProcessing (updateBackgroundState w) = isProcessing w \<and>
   isPaused (updateBackgroundState w) = isPaused w"
  by (simp add: updateBackgroundState_def bg_onUpdate_def saveApplicationState_def
      bg_continueProcessing_def emit_def Let_def)

lemma find_pending_cong:
  "heap w' = heap w \<Longrightarrow> jobQueue w' = jobQueue w \<Longrightarrow> find_pending w' = find_pending w"
  by (simp add: find_pending_def)

lemma processJobQueue_selected:
  assumes "\<not> isPaused w" and "find_pending w = Some r"
  shows "processJobQueue None w =
           w\<lparr>currentJob := Some r, effects := effects w @ [ScrapeDescription (post_id (heap w r))]\<rparr>"
  using assms by (simp add: processJobQueue_def emit_def Let_def)

text \<open>Allocation changes no field but the store and the next address.\<close>

lemma new_objects_fields:
  assumes "new_objects js w = (rs, w')"
  shows "jobQueue w' = jobQueue w" "currentJob w' = currentJob w" "isProcessing w' = isProcessing w"
    "isPaused w' = isPaused w" "reviewActive w' = reviewActive w" "effects w' = effects w"
    "applicationState w' = applicationState w" "stored_jobQueue w' = stored_jobQueue w"
    "listeners w' = listeners w"
proof -
  from new_objects_frame [OF assms]
  have g: "w' = w\<lparr>heap := heap w', fresh := fresh w'\<rparr>"
    by blast
  show "jobQueue w' = jobQueue w"
    using arg_cong [OF g, of jobQueue] by simp
  show "currentJob w' = currentJob w"
    using arg_cong [OF g, of currentJob] by simp
  show "isProcessing w' = isProcessing w"
    using arg_cong [OF g, of isProcessing] by simp
  show "isPaused w' = isPaused w"
    using arg_cong [OF g, of isPaused] by simp
  show "reviewActive w' = reviewActive w"
    using arg_cong [OF g, of reviewActive] by simp
  show "effects w' = effects w"
    using arg_cong [OF g, of effects] by simp
  show "applicationState w' = applicationState w"
    using arg_cong [OF g, of applicationState] by simp
  show "stored_jobQueue w' = stored_jobQueue w"
    using arg_cong [OF g, of stored_jobQueue] by simp
  show "listeners w' = listeners w"
    using arg_cong [OF g, of listeners] by simp
qed

lemma loadJobQueue_loaded:
  "map (heap (loadJobQueue w)) (jobQueue (loadJobQueue w)) =
     (case stored_jobQueue w of None \<Rightarrow> [] | Some q \<Rightarrow> q) \<and>
   (\<forall>r\<in>set (jobQueue (loadJobQueue w)). r < fresh (loadJobQueue w)) \<and>
   currentJob (loadJobQueue w) = currentJob w \<and> isProcessing (loadJobQueue w) = isProcessing w \<and>
   isPaused (loadJobQueue w) = isPaused w \<and> reviewActive (loadJobQueue w) = reviewActive w \<and>
   effects (loadJobQueue w) = effects w \<and> applicationState (loadJobQueue w) = applicationState w"
proof -
  define q where "q = (case stored_jobQueue w of None \<Rightarrow> [] | Some q \<Rightarrow> q)"
  obtain rs w1 where n: "new_objects q w = (rs, w1)"
    by (cases "new_objects q w")
  then have l: "loadJobQueue w = w1\<lparr>jobQueue := rs\<rparr>"
    by (simp add: loadJobQueue_def q_def)
  from new_objects_frame [OF n]
  have a: "rs = [fresh w ..< fresh w + length q]" and b: "fresh w1 = fresh w + length q"
    and c: "map (heap w1) rs = q"
    by blast+
  have "\<forall>r\<in>set rs. r < fresh w1"
    using a b by simp
  then show ?thesis
    using c l new_objects_fields [OF n] by (simp add: q_def)
qed

text \<open>A new popup holds the stored queue.\<close>

lemma init_queue:
  "map (heap (init w)) (jobQueue (init w)) = (case stored_jobQueue w of None \<Rightarrow> [] | Some q \<Rightarrow> q)"
proof -
  define w0 where "w0 = w\<lparr>currentJob := None, isProcessing := False, isPaused := False,
            reviewActive := False, listeners := 0, jobQueue := []\<rparr>"
  define wl where "wl = loadJobQueue w0"
  note l = loadJobQueue_loaded [of w0, folded wl_def]
  have i: "init w = restoreApplicationState wl"
    by (simp add: init_def wl_def w0_def)
  have q: "jobQueue (restoreApplicationState wl) = jobQueue wl"
    by (simp add: restoreApplicationState_def new_object_def emit_def Let_def
        split: option.splits)
  have "heap (restoreApplicationState wl) r = heap wl r" if "r < fresh wl" for r
    using that
    by (simp add: restoreApplicationState_def new_object_def emit_def Let_def
        split: option.splits)
  moreover have "\<forall>r\<in>set (jobQueue wl). r < fresh wl"
    using l by blast
  ultimately have "map (heap (restoreApplicationState wl)) (jobQueue wl) = map (heap wl) (jobQueue wl)"
    by (intro map_cong) auto
  then show ?thesis
    using l by (simp add: i q w0_def)
qed


text \<open>What each handler does to the queue and to the submissions requested so far.\<close>

lemma updateBackgroundState_frame:
  "jobQueue (updateBackgroundState w) = jobQueue w"
  "filter is_submit (effects (updateBackgroundState w)) = filter is_submit (effects w)"
  "reviewActive (updateBackgroundState w) = reviewActive w"
  by (simp_all add: updateBackgroundState_def bg_onUpdate_def saveApplicationState_def
      bg_continueProcessing_def emit_def Let_def)

lemma processJobQueue_frame:
  "jobQueue (processJobQueue scrape w) = jobQueue w"
  "filter is_submit (effects (processJobQueue scrape w)) = filter is_submit (effects w)"
  by (simp_all add: processJobQueue_def emit_def saveJobQueue_def mutate_def Let_def
      split: option.splits)

lemma continueProcessing_frame:
  "jobQueue (continueProcessing scrape w) = jobQueue w"
  "filter is_submit (effects (continueProcessing scrape w)) = filter is_submit (effects w)"
  by (simp_all add: continueProcessing_def processJobQueue_frame)

lemma startApplication_frame:
  "jobQueue (startApplication b inject w) = jobQueue w"
  "filter is_submit (effects (startApplication b inject w)) = filter is_submit (effects w)"
  by (simp_all add: startApplication_def updateBackgroundState_frame emit_def Let_def
      split: option.splits)

lemma pauseApplication_frame:
  "jobQueue (pauseApplication w) = jobQueue w"
  "filter is_submit (effects (pauseApplication w)) = filter is_submit (effects w)"
  by (simp_all add: pauseApplication_def updateBackgroundState_frame)

lemma processSpecificJob_frame:
  "jobQueue (processSpecificJob i scrape w) = jobQueue w"
  "filter is_submit (effects (processSpecificJob i scrape w)) = filter is_submit (effects w)"
  by (simp_all add: processSpecificJob_def processJobQueue_frame updateBackgroundState_frame
      Let_def)

lemma toggleJobStar_frame:
  "jobQueue (toggleJobStar i w) = jobQueue w"
  "filter is_submit (effects (toggleJobStar i w)) = filter is_submit (effects w)"
  by (simp_all add: toggleJobStar_def saveJobQueue_def mutate_def)

lemma confirmApplication_queue:
  "jobQueue (confirmApplication submit w) = jobQueue w"
  by (simp add: confirmApplication_def hideReviewSection_def saveJobQueue_def mutate_def
      emit_def Let_def split: option.splits)

lemma declineApplication_frame:
  "jobQueue (declineApplication w) = jobQueue w"
  "filter is_submit (effects (declineApplication w)) = filter is_submit (effects w)"
  by (simp_all add: declineApplication_def hideReviewSection_def saveJobQueue_def mutate_def
      emit_def split: option.splits)

lemma handleScrapedJobs_frame:
  "prefix (jobQueue w) (jobQueue (handleScrapedJobs js scrape w))"
  "filter is_submit (effects (handleScrapedJobs js scrape w)) = filter is_submit (effects w)"
proof -
  define u where "u = filter (\<lambda>j. post_id j \<notin> set (map (\<lambda>r. post_id (heap w r)) (jobQueue w))) js"
  obtain rs w1 where n: "new_objects u w = (rs, w1)"
    by (cases "new_objects u w")
  note f = new_objects_fields [OF n]
  have h: "handleScrapedJobs js scrape w =
      (if js = [] \<or> u = [] then w\<lparr>isProcessing := False\<rparr>
       else processJobQueue scrape (saveJobQueue (w1\<lparr>jobQueue := jobQueue w1 @ rs\<rparr>)))"
    using n by (simp add: handleScrapedJobs_def u_def Let_def)
  show "prefix (jobQueue w) (jobQueue (handleScrapedJobs js scrape w))"
    using f by (simp add: h processJobQueue_frame saveJobQueue_def)
  show "filter is_submit (effects (handleScrapedJobs js scrape w)) = filter is_submit (effects w)"
    using f by (simp add: h processJobQueue_frame saveJobQueue_def)
qed

lemma analyzeJobWithAI_frame:
  "jobQueue (analyzeJobWithAI job ai w) = jobQueue w"
  "filter is_submit (effects (analyzeJobWithAI job ai w)) = filter is_submit (effects w)"
  by (simp_all add: analyzeJobWithAI_def showReviewSection_def saveJobQueue_def mutate_def
      emit_def split: ai_result.splits)

lemma handleJobDescription_frame:
  "jobQueue (handleJobDescription i d e ai w) = jobQueue w"
  "filter is_submit (effects (handleJobDescription i d e ai w)) = filter is_submit (effects w)"
  by (simp_all add: handleJobDescription_def analyzeJobWithAI_frame saveJobQueue_def mutate_def
      emit_def split: option.splits)

lemma handleApplicationSubmitted_frame:
  "jobQueue (handleApplicationSubmitted i ok e now w) = jobQueue w"
  "filter is_submit (effects (handleApplicationSubmitted i ok e now w)) = filter is_submit (effects w)"
  by (simp_all add: handleApplicationSubmitted_def saveJobQueue_def mutate_def
      split: option.splits)

lemma contentListener_frame:
  "prefix (jobQueue w) (jobQueue (contentListener m scrape ai now w))"
  "filter is_submit (effects (contentListener m scrape ai now w)) = filter is_submit (effects w)"
  by (simp_all add: contentListener_def handleScrapedJobs_frame handleJobDescription_frame
      handleApplicationSubmitted_frame split: message.splits)

lemma contentListener_funpow_frame:
  "prefix (jobQueue w) (jobQueue ((contentListener m scrape ai now ^^ n) w))"
  "filter is_submit (effects ((contentListener m scrape ai now ^^ n) w)) = filter is_submit (effects w)"
proof (induction n)
  case 0
  { case 1 show ?case by simp }
  { case 2 show ?case by simp }
next
  case (Suc n)
  { case 1
    have "prefix (jobQueue ((contentListener m scrape ai now ^^ n) w))
            (jobQueue ((contentListener m scrape ai now ^^ Suc n) w))"
      by (simp add: contentListener_frame)
    with Suc(1) show ?case
      using prefix_order.order_trans by blast }
  { case 2 show ?case
      using Suc(2) by (simp add: contentListener_frame) }
qed

lemma backgroundMessageListener_frame:
  "jobQueue (backgroundMessageListener m scrape w) = jobQueue w"
  "filter is_submit (effects (backgroundMessageListener m scrape w)) = filter is_submit (effects w)"
  by (simp_all add: backgroundMessageListener_def new_object_def continueProcessing_frame
      split: message.splits option.splits)

lemma onMessage_frame:
  "prefix (jobQueue w) (jobQueue (onMessage m scrape ai now w))"
  "filter is_submit (effects (onMessage m scrape ai now w)) = filter is_submit (effects w)"
  using contentListener_funpow_frame [where w = "backgroundMessageListener m scrape w" and n = "listeners w"]
  by (simp_all add: onMessage_def backgroundMessageListener_frame)




text \<open>The queue holds allocated addresses only, in every state of a session and in a
  new popup.\<close>

lemma queue_allocated_same:
  "jobQueue w' = jobQueue w \<Longrightarrow> fresh w \<le> fresh w' \<Longrightarrow> queue_allocated w \<Longrightarrow> queue_allocated w'"
  by (auto simp: queue_allocated_def)

lemma updateBackgroundState_fresh:
  "fresh (updateBackgroundState w) = fresh w"
  by (simp add: updateBackgroundState_def bg_onUpdate_def saveApplicationState_def
      bg_continueProcessing_def emit_def Let_def)

lemma processJobQueue_fresh:
  "fresh (processJobQueue scrape w) = fresh w"
  by (simp add: processJobQueue_def emit_def saveJobQueue_def mutate_def Let_def
      split: option.splits)

lemma continueProcessing_fresh:
  "fresh (continueProcessing scrape w) = fresh w"
  by (simp add: continueProcessing_def processJobQueue_fresh)

lemma handleScrapedJobs_allocated:
  assumes "queue_allocated w"
  shows "queue_allocated (handleScrapedJobs js scrape w)"
proof -
  define u where "u = filter (\<lambda>j. post_id j \<notin> set (map (\<lambda>r. post_id (heap w r)) (jobQueue w))) js"
  obtain rs w1 where n: "new_objects u w = (rs, w1)"
    by (cases "new_objects u w")
  note f = new_objects_fields [OF n]
  from new_objects_frame [OF n]
  have a: "rs = [fresh w ..< fresh w + length u]" and b: "fresh w1 = fresh w + length u"
    by blast+
  have h: "handleScrapedJobs js scrape w =
      (if js = [] \<or> u = [] then w\<lparr>isProcessing := False\<rparr>
       else processJobQueue scrape (saveJobQueue (w1\<lparr>jobQueue := jobQueue w1 @ rs\<rparr>)))"
    using n by (simp add: handleScrapedJobs_def u_def Let_def)
  show ?thesis
    using assms a b f(1)
    by (auto simp: h queue_allocated_def processJobQueue_frame processJobQueue_fresh
        saveJobQueue_def)
qed

lemma analyzeJobWithAI_fresh:
  "fresh (analyzeJobWithAI job ai w) = fresh w"
  by (simp add: analyzeJobWithAI_def showReviewSection_def saveJobQueue_def mutate_def
      emit_def split: ai_result.splits)

lemma contentListener_allocated:
  assumes "queue_allocated w"
  shows "queue_allocated (contentListener m scrape ai now w)"
proof (cases m)
  case (JOBS_SCRAPED js)
  then show ?thesis
    using assms by (simp add: contentListener_def handleScrapedJobs_allocated)
next
  case (JOB_DESCRIPTION_SCRAPED i d e)
  have "fresh (handleJobDescription i d None ai w) = fresh w"
    by (simp add: handleJobDescription_def analyzeJobWithAI_fresh saveJobQueue_def mutate_def
        emit_def truthy_def split: option.splits)
  then show ?thesis
    using assms JOB_DESCRIPTION_SCRAPED
    by (auto simp: contentListener_def handleJobDescription_frame
        intro: queue_allocated_same)
next
  case (APPLICATION_SUBMITTED i ok e)
  have "fresh (handleApplicationSubmitted i ok None now w) = fresh w"
    by (simp add: handleApplicationSubmitted_def saveJobQueue_def mutate_def
        split: option.splits)
  then show ?thesis
    using assms APPLICATION_SUBMITTED
    by (auto simp: contentListener_def handleApplicationSubmitted_frame
        intro: queue_allocated_same)
next
  case (CONTINUE_PROCESSING jo)
  then show ?thesis
    using assms by (simp add: contentListener_def)
qed

lemma contentListener_funpow_allocated:
  "queue_allocated w \<Longrightarrow> queue_allocated ((contentListener m scrape ai now ^^ n) w)"
  by (induction n) (simp_all add: contentListener_allocated)

lemma backgroundMessageListener_allocated:
  assumes "queue_allocated w"
  shows "queue_allocated (backgroundMessageListener m scrape w)"
proof -
  have "fresh w \<le> fresh (backgroundMessageListener m scrape w)"
    by (simp add: backgroundMessageListener_def new_object_def continueProcessing_fresh
        split: message.splits option.splits)
  then show ?thesis
    using assms backgroundMessageListener_frame(1) queue_allocated_same by blast
qed

lemma step_allocated:
  assumes "queue_allocated w"
  shows "queue_allocated (step e w)"
proof (cases e)
  case (SaveSettings k c v t)
  then show ?thesis using assms by (simp add: saveSettings_def queue_allocated_def)
next
  case (StartApplication b inject)
  have "fresh (startApplication b inject w) = fresh w"
    by (simp add: startApplication_def updateBackgroundState_fresh emit_def Let_def
        split: option.splits)
  then show ?thesis
    using assms StartApplication
    by (auto simp: startApplication_frame intro: queue_allocated_same)
next
  case PauseApplication
  then show ?thesis
    using assms
    by (auto simp: pauseApplication_def updateBackgroundState_frame updateBackgroundState_fresh
        intro: queue_allocated_same)
next
  case (ClearAllData b)
  then show ?thesis using assms by (simp add: clearAllData_def queue_allocated_def)
next
  case (ProcessSpecificJob i scrape)
  have "fresh (processSpecificJob i scrape w) = fresh w"
    by (simp add: processSpecificJob_def processJobQueue_fresh updateBackgroundState_fresh
        Let_def)
  then show ?thesis
    using assms ProcessSpecificJob
    by (auto simp: processSpecificJob_frame intro: queue_allocated_same)
next
  case (ToggleJobStar i)
  have "fresh (toggleJobStar i w) = fresh w"
    by (simp add: toggleJobStar_def saveJobQueue_def mutate_def)
  then show ?thesis
    using assms ToggleJobStar
    by (auto simp: toggleJobStar_frame intro: queue_allocated_same)
next
  case (ConfirmApplication submit)
  have "fresh (confirmApplication submit w) = fresh w"
    by (simp add: confirmApplication_def hideReviewSection_def saveJobQueue_def mutate_def
        emit_def Let_def split: option.splits)
  then show ?thesis
    using assms ConfirmApplication
    by (auto simp: confirmApplication_queue intro: queue_allocated_same)
next
  case DeclineApplication
  have "fresh (declineApplication w) = fresh w"
    by (simp add: declineApplication_def hideReviewSection_def saveJobQueue_def mutate_def
        emit_def split: option.splits)
  then show ?thesis
    using assms DeclineApplication
    by (auto simp: declineApplication_frame intro: queue_allocated_same)
next
  case (Message m scrape ai now)
  then show ?thesis
    using assms
    by (simp add: onMessage_def contentListener_funpow_allocated
        backgroundMessageListener_allocated)
next
  case (TimerProcessJobQueue scrape)
  then show ?thesis
    using assms
    by (auto simp: processJobQueue_frame processJobQueue_fresh intro: queue_allocated_same)
next
  case (TimerContinueProcessing scrape)
  then show ?thesis
    using assms
    by (auto simp: continueProcessing_frame continueProcessing_fresh intro: queue_allocated_same)
next
  case (TimerNotifyPopup scrape)
  then show ?thesis
    using assms by (simp add: backgroundMessageListener_allocated)
qed

lemma run_allocated:
  "queue_allocated w \<Longrightarrow> queue_allocated (run es w)"
  by (induction es arbitrary: w) (simp_all add: step_allocated)

lemma installed_allocated:
  "queue_allocated installed"
  by (simp add: queue_allocated_def installed_def)

lemma init_allocated:
  "queue_allocated (init w)"
proof -
  define w0 where "w0 = w\<lparr>currentJob := None, isProcessing := False, isPaused := False,
            reviewActive := False, listeners := 0, jobQueue := []\<rparr>"
  define wl where "wl = loadJobQueue w0"
  note l = loadJobQueue_loaded [of w0, folded wl_def]
  have i: "init w = restoreApplicationState wl"
    by (simp add: init_def wl_def w0_def)
  have q: "jobQueue (restoreApplicationState wl) = jobQueue wl"
    by (simp add: restoreApplicationState_def new_object_def emit_def Let_def
        split: option.splits)
  have "fresh wl \<le> fresh (restoreApplicationState wl)"
    by (simp add: restoreApplicationState_def new_object_def emit_def Let_def
        split: option.splits)
  moreover have "queue_allocated wl"
    using l by (simp add: queue_allocated_def)
  ultimately show ?thesis
    using q i queue_allocated_same by metis
qed










section \<open>The in-flight job\<close>

text \<open>
  Claim C1, as stated, fails: it requires that whenever \<open>isProcessing\<close> is true,
  \<open>currentJob\<close> is a job of the queue that is neither applied nor skipped. After
  \<open>startApplication\<close> on a new popup \<open>isProcessing\<close> is true and \<open>currentJob\<close> is still
  \<open>null\<close>: the flag is raised before discovery, when no job has been selected.
\<close>

theorem start_without_current_job:
  "isProcessing ex_started \<and> currentJob ex_started = None \<and> jobQueue ex_started = []"
  by (simp add: ex_defs model_defs)

text \<open>
  Claim C1, amended. \<open>currentJob\<close> is one optional reference, so at most one job is
  designated. \<open>startApplication\<close> leaves \<open>currentJob\<close> as it was. After
  \<open>processSpecificJob\<close> on a pending job of the queue, and after every unpaused iteration of
  \<open>processJobQueue\<close> that leaves \<open>isProcessing\<close> true, in both cases when the tab navigation
  does not throw, \<open>currentJob\<close> is a job of the queue whose status is \<open>pending\<close>.
\<close>

theorem selected_job_is_pending:
  "(index < length (jobQueue w) \<and> status (heap w (jobQueue w ! index)) = pending \<longrightarrow>
      (let w' = processSpecificJob index None w in
         isProcessing w' \<and>
         (\<exists>r. currentJob w' = Some r \<and> r \<in> set (jobQueue w') \<and> status (heap w' r) = pending))) \<and>
   (\<not> isPaused w \<and> isProcessing (processJobQueue None w) \<longrightarrow>
      (let w' = processJobQueue None w in
         \<exists>r. currentJob w' = Some r \<and> r \<in> set (jobQueue w') \<and> status (heap w' r) = pending)) \<and>
   currentJob (startApplication onLinkedIn inject w) = currentJob w"
proof (intro conjI impI)
  assume h: "index < length (jobQueue w) \<and> status (heap w (jobQueue w ! index)) = pending"
  define job where "job = jobQueue w ! index"
  define w1 where "w1 = updateBackgroundState (w\<lparr>currentJob := Some job, isProcessing := True\<rparr>)"
  have q: "heap w1 = heap w" "jobQueue w1 = jobQueue w" "currentJob w1 = Some job"
    "isProcessing w1" "isPaused w1 = isPaused w"
    by (simp_all add: w1_def updateBackgroundState_popup)
  have mem: "job \<in> set (jobQueue w)" and pen: "status (heap w job) = pending"
    using h by (simp_all add: job_def)
  have ps: "processSpecificJob index None w = processJobQueue None w1"
    using h by (simp add: processSpecificJob_def w1_def job_def Let_def)
  have "isProcessing (processJobQueue None w1) \<and>
        (\<exists>r. currentJob (processJobQueue None w1) = Some r \<and>
             r \<in> set (jobQueue (processJobQueue None w1)) \<and>
             status (heap (processJobQueue None w1) r) = pending)"
  proof (cases "isPaused w1")
    case True
    then have "processJobQueue None w1 = w1"
      by (simp add: processJobQueue_def)
    then show ?thesis
      using q mem pen by simp
  next
    case False
    have "find_pending w1 \<noteq> None"
      using mem pen q by (auto simp: find_pending_None)
    then obtain r where r: "find_pending w1 = Some r"
      by auto
    from find_pending_Some [OF r] processJobQueue_selected [OF False r] q
    show ?thesis by simp
  qed
  then show "let w' = processSpecificJob index None w in
         isProcessing w' \<and>
         (\<exists>r. currentJob w' = Some r \<and> r \<in> set (jobQueue w') \<and> status (heap w' r) = pending)"
    by (simp add: ps Let_def)
next
  assume h: "\<not> isPaused w \<and> isProcessing (processJobQueue None w)"
  have "find_pending w \<noteq> None"
  proof
    assume "find_pending w = None"
    then have "processJobQueue None w = w\<lparr>isProcessing := False\<rparr>"
      using h by (simp add: processJobQueue_def)
    then show False using h by simp
  qed
  then obtain r where r: "find_pending w = Some r"
    by auto
  from find_pending_Some [OF r] processJobQueue_selected [OF _ r] h
  show "let w' = processJobQueue None w in
         \<exists>r. currentJob w' = Some r \<and> r \<in> set (jobQueue w') \<and> status (heap w' r) = pending"
    by (simp add: Let_def)
next
  show "currentJob (startApplication onLinkedIn inject w) = currentJob w"
    by (simp add: startApplication_def updateBackgroundState_popup emit_def Let_def
        split: option.splits)
qed

theorem selected_job_is_pending_witness:
  "jobQueue ex_queued = [0, 1] \<and> status (heap ex_queued 1) = pending \<and>
   isProcessing (processSpecificJob 1 None ex_queued) \<and>
   currentJob (processSpecificJob 1 None ex_queued) = Some 0 \<and>
   isProcessing (processJobQueue None ex_first_skipped) \<and>
   currentJob (processJobQueue None ex_first_skipped) = Some 1"
  using selected_job_is_pending [of 1 ex_queued True None]
    selected_job_is_pending [of 0 ex_first_skipped True None]
  by (simp add: ex_defs model_defs)

section \<open>Resuming after the popup is reopened\<close>

text \<open>
  Claim C2, as stated, fails: it requires that a new popup resumes the persisted current
  job at the stage of its status. In the session below the service worker holds
  \<open>isProcessing = true\<close> and the current job \<open>A\<close>, which is under review, and \<open>B\<close> is
  pending. The new popup does not show the review of \<open>A\<close> again: \<open>continueProcessing\<close> calls
  \<open>processJobQueue\<close>, which makes \<open>B\<close> the current job and requests its description.
\<close>

theorem resume_selects_next_pending:
  "bg_isProcessing (applicationState ex_restarted) \<and>
   map_option post_id (bg_currentJob (applicationState ex_restarted)) = Some ''A'' \<and>
   map_option status (bg_currentJob (applicationState ex_restarted)) = Some reviewing \<and>
   map_option (map post_id) (stored_jobQueue ex_restarted) = Some [''A'', ''B''] \<and>
   (let w = continueProcessing None (init ex_restarted) in
      map_option (\<lambda>r. post_id (heap w r)) (currentJob w) = Some ''B'' \<and>
      \<not> reviewActive w \<and>
      effects w = effects ex_restarted @
        [SetTimeout ContinueProcessing 1000, ScrapeDescription ''B''])"
  by (simp add: ex_defs model_defs)

text \<open>
  Claim C2, amended. When the service worker holds \<open>isProcessing = true\<close> and a current job,
  a new popup loads the stored queue, restores \<open>isProcessing = true\<close> and a copy of that
  job as \<open>currentJob\<close>, and schedules \<open>continueProcessing\<close> after one second. That call is one
  iteration of \<open>processJobQueue\<close>, whatever the status of the restored job: the first
  pending job of the loaded queue becomes \<open>currentJob\<close> and its description is requested, or,
  when none is pending, \<open>isProcessing\<close> is set to false. Only one job is current.
\<close>

theorem attach_reenters_queue:
  assumes "bg_isProcessing (applicationState w)" and "bg_currentJob (applicationState w) = Some j"
  shows "let w1 = init w; w2 = continueProcessing scrape w1 in
     isProcessing w1 \<and> \<not> isPaused w1 \<and> \<not> reviewActive w1 \<and>
     map_option (heap w1) (currentJob w1) = Some j \<and>
     map (heap w1) (jobQueue w1) = (case stored_jobQueue w of None \<Rightarrow> [] | Some q \<Rightarrow> q) \<and>
     effects w1 = effects w @ [SetTimeout ContinueProcessing 1000] \<and>
     (case find_pending w1 of
        None \<Rightarrow> w2 = w1\<lparr>isProcessing := False\<rparr>
      | Some r \<Rightarrow>
          currentJob w2 = Some r \<and>
          (scrape = None \<longrightarrow>
             w2 = w1\<lparr>currentJob := Some r,
                     effects := effects w1 @ [ScrapeDescription (post_id (heap w1 r))]\<rparr>))"
proof -
  define w0 where "w0 = w\<lparr>currentJob := None, isProcessing := False, isPaused := False,
            reviewActive := False, listeners := 0, jobQueue := []\<rparr>"
  define wl where "wl = loadJobQueue w0"
  have i: "init w = restoreApplicationState wl"
    by (simp add: init_def wl_def w0_def)
  note l = loadJobQueue_loaded [of w0, folded wl_def]
  have app: "applicationState wl = applicationState w"
    using l by (simp add: w0_def)
  define w1 where "w1 = init w"
  have w1: "w1 = wl\<lparr>heap := (heap wl)(fresh wl := j), fresh := Suc (fresh wl),
                    isProcessing := True, currentJob := Some (fresh wl),
                    effects := effects wl @ [SetTimeout ContinueProcessing 1000]\<rparr>"
    using assms app
    by (simp add: w1_def i restoreApplicationState_def new_object_def emit_def Let_def)
  have p1: "isProcessing w1" "\<not> isPaused w1" "\<not> reviewActive w1"
    "map_option (heap w1) (currentJob w1) = Some j"
    "effects w1 = effects w @ [SetTimeout ContinueProcessing 1000]"
    using l by (simp_all add: w1 w0_def)
  have "map (heap w1) (jobQueue w1) = map (heap wl) (jobQueue wl)"
    using l by (auto simp: w1)
  then have p2: "map (heap w1) (jobQueue w1) = (case stored_jobQueue w of None \<Rightarrow> [] | Some q \<Rightarrow> q)"
    using l by (simp add: w0_def)
  have cur: "currentJob w1 = Some (fresh wl)"
    by (simp add: w1)
  have c: "continueProcessing scrape w1 = processJobQueue scrape w1"
    using p1(1) cur by (simp add: continueProcessing_def)
  have p3: "case find_pending w1 of
        None \<Rightarrow> continueProcessing scrape w1 = w1\<lparr>isProcessing := False\<rparr>
      | Some r \<Rightarrow>
          currentJob (continueProcessing scrape w1) = Some r \<and>
          (scrape = None \<longrightarrow>
             continueProcessing scrape w1 = w1\<lparr>currentJob := Some r,
                     effects := effects w1 @ [ScrapeDescription (post_id (heap w1 r))]\<rparr>)"
    unfolding c using p1(2)
    by (simp add: processJobQueue_def emit_def saveJobQueue_def mutate_def Let_def
             split: option.splits)
  show ?thesis
    using p1 p2 p3 by (simp add: Let_def w1_def [symmetric])
qed

theorem attach_reenters_queue_witness:
  "bg_isProcessing (applicationState ex_restarted) \<and>
   bg_currentJob (applicationState ex_restarted) = Some (heap ex_restarted 0) \<and>
   status (heap ex_restarted 0) = reviewing \<and>
   isProcessing (init ex_restarted) \<and>
   currentJob (continueProcessing None (init ex_restarted)) = Some 3 \<and>
   post_id (heap (init ex_restarted) 3) = ''B''"
proof -
  have a: "bg_isProcessing (applicationState ex_restarted)"
    by (simp add: ex_defs model_defs)
  have b: "bg_currentJob (applicationState ex_restarted) = Some (heap ex_restarted 0)"
    by (simp add: ex_defs model_defs)
  have c: "status (heap ex_restarted 0) = reviewing"
    by (simp add: ex_defs model_defs)
  have d: "find_pending (init ex_restarted) = Some 3 \<and> post_id (heap (init ex_restarted) 3) = ''B''"
    by (simp add: ex_defs model_defs)
  show ?thesis
    using a b c d attach_reenters_queue [OF a b, of None] by (simp add: Let_def)
qed

section \<open>Duplicate ids\<close>

text \<open>
  Claim C3 (no two jobs of the queue share an id after discovery). \<open>handleScrapedJobs\<close>
  filters a batch against the ids already in the queue only, not against the batch
  itself: a batch that carries the id \<open>A\<close> twice, on an empty queue, is inserted whole
  and the queue then holds two jobs with the id \<open>A\<close>.
\<close>

theorem handleScrapedJobs_duplicate_in_batch:
  "let w = step (Message (JOBS_SCRAPED [jobA, jobA]) None (AI_fail []) []) ex_started in
     jobQueue ex_started = [] \<and>
     map (\<lambda>r. post_id (heap w r)) (jobQueue w) = [''A'', ''A''] \<and>
     \<not> distinct (map (\<lambda>r. post_id (heap w r)) (jobQueue w))"
  by (simp add: ex_defs model_defs)

section \<open>Failures of the external calls\<close>

text \<open>
  Claim C4 (a failed description extraction is recorded in the job's \<open>error\<close> and the job
  is skipped). The page reports the failure as \<open>JOB_DESCRIPTION_SCRAPED\<close> with an \<open>error\<close>
  field and no description. The listener calls \<open>handleJobDescription\<close> with the id and the
  description only, so the handler's error branch is not taken: the job gets an
  undefined description, is analysed, and ends under review with no error recorded.
  Called with the error, the handler would have skipped the job.
\<close>

theorem description_error_dropped:
  "let w = step (Message (JOB_DESCRIPTION_SCRAPED ''A'' None
                   (Some ''Could not find job description''))
                   None (AI_ok (Some 82) (Some ''Dear team'')) []) ex_queued in
     listeners ex_queued = 1 \<and> currentJob ex_queued = Some 0 \<and>
     post_id (heap ex_queued 0) = ''A'' \<and> status (heap ex_queued 0) = pending \<and>
     status (heap w 0) = reviewing \<and> error (heap w 0) = None \<and>
     effects w = effects ex_queued @ [ShowReview ''A''] \<and>
     status (heap (handleJobDescription ''A'' None (Some ''Could not find job description'')
                     (AI_ok (Some 82) (Some ''Dear team'')) ex_queued) 0) = skipped"
  by (simp add: ex_defs model_defs)

section \<open>Persistence of the application state\<close>

text \<open>
  Claim C5 (every change of \<open>isProcessing\<close> and \<open>currentJob\<close> is persisted before the
  operation returns). After a session in which the pipeline was started, two jobs were
  discovered and the first reached review, the popup holds \<open>isProcessing = false\<close> and
  \<open>currentJob = A\<close>, while the service worker and the storage still hold
  \<open>isProcessing = true\<close>, no current job and an empty queue: \<open>processJobQueue\<close>,
  \<open>handleScrapedJobs\<close> and \<open>showReviewSection\<close> never call \<open>updateBackgroundState\<close>.
\<close>

theorem review_pause_not_persisted:
  "\<not> isProcessing ex_reviewing \<and> currentJob ex_reviewing = Some 0 \<and>
   applicationState ex_reviewing =
     \<lparr>bg_isProcessing = True, bg_currentJob = None, bg_jobQueue = []\<rparr> \<and>
   stored_applicationState ex_reviewing =
     Some \<lparr>bg_isProcessing = True, bg_currentJob = None, bg_jobQueue = []\<rparr>"
  by (simp add: ex_defs model_defs)

section \<open>The human decision\<close>




section \<open>The scheduling loop\<close>

text \<open>
  Claim C7. An iteration of the scheduling loop (\<open>processJobQueue\<close>) that is not paused
  selects the first job of the queue, in insertion order, whose status is \<open>pending\<close>: it
  becomes \<open>currentJob\<close> and, when the tab navigation does not throw, its description is
  requested. When no job is pending the iteration only sets \<open>isProcessing\<close> to false:
  the queue, the stored data and the requested effects are those of before.
\<close>

theorem processJobQueue_first_pending:
  assumes "\<not> isPaused w"
  shows "((\<forall>r\<in>set (jobQueue w). status (heap w r) \<noteq> pending) \<longrightarrow>
            processJobQueue scrape w = w\<lparr>isProcessing := False\<rparr>) \<and>
         (i < length (jobQueue w) \<and> status (heap w (jobQueue w ! i)) = pending \<and>
            (\<forall>k<i. status (heap w (jobQueue w ! k)) \<noteq> pending) \<longrightarrow>
            currentJob (processJobQueue scrape w) = Some (jobQueue w ! i) \<and>
            (scrape = None \<longrightarrow> processJobQueue scrape w =
               w\<lparr>currentJob := Some (jobQueue w ! i),
                 effects := effects w @ [ScrapeDescription (post_id (heap w (jobQueue w ! i)))]\<rparr>))"
proof (intro conjI impI)
  assume "\<forall>r\<in>set (jobQueue w). status (heap w r) \<noteq> pending"
  then have "find_pending w = None"
    by (simp add: find_pending_def find_None_iff)
  with assms show "processJobQueue scrape w = w\<lparr>isProcessing := False\<rparr>"
    by (simp add: processJobQueue_def)
next
  assume h: "i < length (jobQueue w) \<and> status (heap w (jobQueue w ! i)) = pending \<and>
            (\<forall>k<i. status (heap w (jobQueue w ! k)) \<noteq> pending)"
  then have f: "find_pending w = Some (jobQueue w ! i)"
    unfolding find_pending_def find_Some_iff by blast
  with assms show "currentJob (processJobQueue scrape w) = Some (jobQueue w ! i)"
    by (simp add: processJobQueue_def emit_def saveJobQueue_def mutate_def Let_def
             split: option.splits)
  assume "scrape = None"
  then show "processJobQueue scrape w =
               w\<lparr>currentJob := Some (jobQueue w ! i),
                 effects := effects w @ [ScrapeDescription (post_id (heap w (jobQueue w ! i)))]\<rparr>"
    using assms f by (simp add: processJobQueue_def emit_def Let_def)
qed

theorem processJobQueue_first_pending_witness:
  "\<not> isPaused ex_first_skipped \<and> \<not> isPaused installed \<and>
   status (heap ex_first_skipped 0) = skipped \<and>
   currentJob (processJobQueue None ex_first_skipped) = Some 1 \<and>
   processJobQueue None installed = installed\<lparr>isProcessing := False\<rparr>"
  using processJobQueue_first_pending [of ex_first_skipped None 1]
    processJobQueue_first_pending [of installed None 0]
  by (simp add: ex_defs model_defs)

section \<open>Clearing all data\<close>

text \<open>
  Claim C8, as stated, fails: it requires that after clear-all the application state has
  its initial value. Clearing while a job is being processed empties the queue and the
  storage, but \<open>isProcessing\<close> stays true and \<open>currentJob\<close> stays set in the popup, and the
  service worker's \<open>applicationState\<close> keeps \<open>isProcessing = true\<close>.
\<close>

theorem clear_keeps_processing:
  "let w = step (ClearAllData True) ex_queued in
     jobQueue w = [] \<and> stored_jobQueue w = None \<and>
     isProcessing w \<and> currentJob w = Some 0 \<and> bg_isProcessing (applicationState w) \<and>
     \<not> isProcessing installed \<and> currentJob installed = None"
  by (simp add: ex_defs model_defs)

text \<open>
  Claim C8, amended. After a confirmed clear-all the queue is empty, and the stored queue
  and the stored application state are removed; \<open>isProcessing\<close>, \<open>isPaused\<close> and \<open>currentJob\<close>
  of the popup and the service worker's \<open>applicationState\<close> are what they were. No other
  input of a session removes a job: the queue before it is a prefix of the queue after
  it; and a new popup starts with the stored queue.
\<close>

theorem clear_all_and_no_deletion:
  "(let w' = clearAllData True w in
      jobQueue w' = [] \<and> stored_jobQueue w' = None \<and> stored_applicationState w' = None \<and>
      isProcessing w' = isProcessing w \<and> isPaused w' = isPaused w \<and>
      currentJob w' = currentJob w \<and> applicationState w' = applicationState w \<and>
      heap w' = heap w) \<and>
   (e \<noteq> ClearAllData True \<longrightarrow> prefix (jobQueue w) (jobQueue (step e w))) \<and>
   map (heap (init w)) (jobQueue (init w)) = (case stored_jobQueue w of None \<Rightarrow> [] | Some q \<Rightarrow> q)"
proof (intro conjI impI)
  show "let w' = clearAllData True w in
      jobQueue w' = [] \<and> stored_jobQueue w' = None \<and> stored_applicationState w' = None \<and>
      isProcessing w' = isProcessing w \<and> isPaused w' = isPaused w \<and>
      currentJob w' = currentJob w \<and> applicationState w' = applicationState w \<and>
      heap w' = heap w"
    by (simp add: clearAllData_def)
next
  assume "e \<noteq> ClearAllData True"
  then show "prefix (jobQueue w) (jobQueue (step e w))"
    by (cases e)
      (simp_all add: saveSettings_def clearAllData_def startApplication_frame
        pauseApplication_frame processSpecificJob_frame toggleJobStar_frame
        confirmApplication_queue
        declineApplication_frame onMessage_frame processJobQueue_frame
        continueProcessing_frame backgroundMessageListener_frame)
next
  show "map (heap (init w)) (jobQueue (init w)) =
      (case stored_jobQueue w of None \<Rightarrow> [] | Some q \<Rightarrow> q)"
    by (rule init_queue)
qed

theorem clear_all_and_no_deletion_witness:
  "jobQueue ex_queued = [0, 1] \<and>
   jobQueue (step (Message (JOBS_SCRAPED [jobA, scraped ''C'' ''Data Engineer'']) None
                     (AI_fail []) []) ex_queued) = [0, 1, 2] \<and>
   prefix (jobQueue ex_queued)
     (jobQueue (step (Message (JOBS_SCRAPED [jobA, scraped ''C'' ''Data Engineer'']) None
                        (AI_fail []) []) ex_queued)) \<and>
   jobQueue (clearAllData True ex_queued) = []"
  using clear_all_and_no_deletion
    [of ex_queued "Message (JOBS_SCRAPED [jobA, scraped ''C'' ''Data Engineer'']) None (AI_fail []) []"]
  by (simp add: ex_defs model_defs)

section \<open>Approval and submission\<close>




section \<open>Discovery\<close>

text \<open>
  Claim C10. When a discovery result is empty, or every candidate carries the id of a job
  already in the queue, \<open>handleScrapedJobs\<close> sets \<open>isProcessing\<close> to false and changes
  nothing else: \<open>processJobQueue\<close> is not entered, so no job is selected, no description is
  requested and the queue, with its pending jobs, is as before.
\<close>

theorem handleScrapedJobs_nothing_new:
  assumes "\<forall>j\<in>set newJobs. \<exists>r\<in>set (jobQueue w). post_id (heap w r) = post_id j"
  shows "handleScrapedJobs newJobs scrape w = w\<lparr>isProcessing := False\<rparr>"
proof -
  have "filter (\<lambda>j. post_id j \<notin> set (map (\<lambda>r. post_id (heap w r)) (jobQueue w))) newJobs = []"
    unfolding filter_empty_conv using assms
    by (metis (mono_tags, lifting) image_eqI list.set_map)
  then show ?thesis by (simp add: handleScrapedJobs_def)
qed

theorem handleScrapedJobs_nothing_new_witness:
  "jobQueue ex_first_skipped = [0, 1] \<and>
   post_id (heap ex_first_skipped 0) = post_id jobA \<and>
   post_id (heap ex_first_skipped 1) = post_id jobB \<and>
   status (heap ex_first_skipped 1) = pending \<and>
   handleScrapedJobs [jobB, jobA] None ex_first_skipped =
     ex_first_skipped\<lparr>isProcessing := False\<rparr> \<and>
   handleScrapedJobs [] None ex_first_skipped = ex_first_skipped\<lparr>isProcessing := False\<rparr>"
proof -
  have q: "jobQueue ex_first_skipped = [0, 1] \<and>
      post_id (heap ex_first_skipped 0) = post_id jobA \<and>
      post_id (heap ex_first_skipped 1) = post_id jobB \<and>
      status (heap ex_first_skipped 1) = pending"
    by (simp add: ex_defs model_defs)
  then have h: "\<forall>j\<in>set [jobB, jobA]. \<exists>r\<in>set (jobQueue ex_first_skipped).
       post_id (heap ex_first_skipped r) = post_id j"
    by simp
  show ?thesis
    using q handleScrapedJobs_nothing_new [OF h, of None]
      handleScrapedJobs_nothing_new [of "[]" ex_first_skipped None]
    by simp
qed

end
